theory Spec2Isabelle
  imports Complex_Main
begin

section \<open>Values of the Python program\<close>

text \<open>
  The program \<^verbatim>\<open>firstrade_vs_sp500_app.py\<close> computes with Python floats. A finite float is
  modelled as a \<^typ>\<open>real\<close>: rounding inside the range of the floats is left out. The two
  ends of the range are kept where they decide what the program does: a power too large for
  a float raises \<^verbatim>\<open>OverflowError\<close>, a power too small for a float is zero. Every exception
  the financial helpers can raise is a value of \<open>failure\<close>, and a function that may raise
  returns \<open>failure + 'a\<close> with \<open>Inl\<close> for the exception.
\<close>

datatype failure =
    IndexError            \<comment> \<open>\<^verbatim>\<open>cashflows[0]\<close>, \<^verbatim>\<open>.iloc[-1]\<close> on an empty sequence\<close>
  | ZeroDivisionError     \<comment> \<open>float division by zero, \<^verbatim>\<open>0.0 ** negative\<close>\<close>
  | TypeError             \<comment> \<open>\<^verbatim>\<open>float()\<close> of a complex number\<close>
  | OverflowError         \<comment> \<open>\<^verbatim>\<open>x ** y\<close> beyond the largest float\<close>
  | RuntimeError          \<comment> \<open>raised by the root finder when it does not converge\<close>
  | NonFinite             \<comment> \<open>no exception: numpy division by a zero price gives inf or nan,
                              which the real-number model cannot hold\<close>

text \<open>
  The result of \<^verbatim>\<open>x ** y\<close> on two floats is a float or, for a negative base with a
  non-integer exponent, a complex number.
\<close>

datatype pynum = PyFloat real | PyComplex complex

text \<open>What a metric function returns: a number or the \<^verbatim>\<open>float("nan")\<close> sentinel.\<close>

datatype pyvalue = Num pynum | NaN

text \<open>
  A naive \<^verbatim>\<open>datetime\<close> is the number of microseconds since the first instant of the
  calendar. \<^verbatim>\<open>(a - b).days\<close> is the day field of the normalised \<^verbatim>\<open>timedelta\<close>: the
  difference divided by one day, rounded down (the day field may be negative, the seconds
  and microseconds fields never are).
\<close>

type_synonym datetime = int

definition us_per_day :: int where
  "us_per_day = 86400000000"

definition timedelta_days :: "datetime \<Rightarrow> datetime \<Rightarrow> int" where
  "timedelta_days a b = (a - b) div us_per_day"

type_synonym cashflows = "(datetime \<times> real) list"

text \<open>A \<^verbatim>\<open>pd.Series\<close> of prices: its rows (index, value) in index order.\<close>

type_synonym price_series = "(datetime \<times> real) list"

subsection \<open>Float arithmetic as Python does it\<close>

text \<open>
  A double holds magnitudes below \<open>2 ^ 1024\<close>; a magnitude of at most \<open>1 / 2 ^ 1075\<close>, half
  the smallest subnormal, is rounded to zero.
\<close>

definition float_overflow :: "real \<Rightarrow> bool" where
  "float_overflow v = (2 ^ 1024 \<le> \<bar>v\<bar>)"

definition float_underflow :: "real \<Rightarrow> bool" where
  "float_underflow v = (\<bar>v\<bar> \<le> 1 / 2 ^ 1075)"

definition flush :: "real \<Rightarrow> real" where
  "flush v = (if float_underflow v then 0 else v)"

definition float_div :: "real \<Rightarrow> real \<Rightarrow> failure + real" where
  "float_div a b = (if b = 0 then Inl ZeroDivisionError else Inr (a / b))"

text \<open>
  \<^verbatim>\<open>x ** y\<close> for floats, in the order CPython decides it: a zero exponent gives 1 (also
  for a zero base); a zero base raises for a negative exponent and gives 0 otherwise; a
  negative base with a non-integer exponent gives the complex power
  \<open>|x|\<^sup>y (cos \<pi>y + i sin \<pi>y)\<close>, with an integer exponent the signed real power. A
  result beyond the largest float raises \<^verbatim>\<open>OverflowError\<close>; a result too small for a float
  is zero, and so may be both parts of a complex power.
\<close>

definition complex_pow :: "real \<Rightarrow> real \<Rightarrow> failure + pynum" where
  "complex_pow x y =
     (let len = (- x) powr y in
      if float_overflow len then Inl OverflowError
      else Inr (PyComplex (Complex (flush (flush len * cos (pi * y)))
                                   (flush (flush len * sin (pi * y))))))"

definition float_pow :: "real \<Rightarrow> real \<Rightarrow> failure + pynum" where
  "float_pow x y =
     (if y = 0 then Inr (PyFloat 1)
      else if x = 0 then (if y < 0 then Inl ZeroDivisionError else Inr (PyFloat 0))
      else if x < 0 \<and> y \<noteq> of_int \<lfloor>y\<rfloor> then complex_pow x y
      else
        (let v = (if x < 0 then x powi \<lfloor>y\<rfloor> else x powr y) in
         if float_overflow v then Inl OverflowError else Inr (PyFloat (flush v))))"

text \<open>\<^verbatim>\<open>cf / p\<close> with a float numerator.\<close>

definition truediv :: "real \<Rightarrow> pynum \<Rightarrow> failure + pynum" where
  "truediv a p =
     (case p of
        PyFloat b \<Rightarrow> if b = 0 then Inl ZeroDivisionError else Inr (PyFloat (a / b))
      | PyComplex c \<Rightarrow> if c = 0 then Inl ZeroDivisionError else Inr (PyComplex (of_real a / c)))"

fun py_add :: "pynum \<Rightarrow> pynum \<Rightarrow> pynum" where
  "py_add (PyFloat a) (PyFloat b) = PyFloat (a + b)"
| "py_add (PyFloat a) (PyComplex c) = PyComplex (of_real a + c)"
| "py_add (PyComplex c) (PyFloat b) = PyComplex (c + of_real b)"
| "py_add (PyComplex c) (PyComplex d) = PyComplex (c + d)"

fun py_sub_float :: "pynum \<Rightarrow> real \<Rightarrow> pynum" where
  "py_sub_float (PyFloat a) b = PyFloat (a - b)"
| "py_sub_float (PyComplex c) b = PyComplex (c - of_real b)"

text \<open>\<^verbatim>\<open>float(v)\<close>: a complex argument raises \<^verbatim>\<open>TypeError\<close>.\<close>

fun py_float :: "pynum \<Rightarrow> failure + real" where
  "py_float (PyFloat a) = Inr a"
| "py_float (PyComplex c) = Inl TypeError"

subsection \<open>Float arithmetic as numpy does it\<close>

text \<open>
  The root finder calls its function with a numpy \<^verbatim>\<open>float64\<close>, and an operation with a
  \<^verbatim>\<open>float64\<close> operand is numpy's: it never raises, it returns an infinity or not-a-number
  (with a warning). A \<^verbatim>\<open>float64\<close> is a finite value (\<open>Fin 0\<close> is the positive zero), the
  negative zero, an infinity or not-a-number.
\<close>

datatype float64 = Fin real | NegZero | PosInf | NegInf | NotANumber

text \<open>The \<^verbatim>\<open>float64\<close> of an exact result, rounded at the two ends of the range only.\<close>

definition to_float64 :: "real \<Rightarrow> float64" where
  "to_float64 v =
     (if float_overflow v then (if 0 < v then PosInf else NegInf)
      else if float_underflow v then (if v < 0 then NegZero else Fin 0)
      else Fin v)"

text \<open>
  \<^verbatim>\<open>x ** y\<close> with a finite \<^verbatim>\<open>float64\<close> base (a zero base is the positive zero of \<^verbatim>\<open>1 + rate\<close>)
  and a float exponent.
\<close>

definition float64_pow :: "real \<Rightarrow> real \<Rightarrow> float64" where
  "float64_pow x y =
     (if y = 0 then Fin 1
      else if x = 0 then (if y < 0 then PosInf else Fin 0)
      else if x < 0 then
        (if y = of_int \<lfloor>y\<rfloor> then to_float64 (x powi \<lfloor>y\<rfloor>) else NotANumber)
      else to_float64 (x powr y))"

text \<open>\<^verbatim>\<open>cf / p\<close> with a float numerator and a \<^verbatim>\<open>float64\<close> denominator.\<close>

definition float64_rtruediv :: "real \<Rightarrow> float64 \<Rightarrow> float64" where
  "float64_rtruediv a p =
     (case p of
        Fin b \<Rightarrow>
          if b = 0 then (if 0 < a then PosInf else if a < 0 then NegInf else NotANumber)
          else if a = 0 then (if b < 0 then NegZero else Fin 0)
          else to_float64 (a / b)
      | NegZero \<Rightarrow> if 0 < a then NegInf else if a < 0 then PosInf else NotANumber
      | PosInf \<Rightarrow> if a < 0 then NegZero else Fin 0
      | NegInf \<Rightarrow> if a < 0 then Fin 0 else NegZero
      | NotANumber \<Rightarrow> NotANumber)"

fun float64_add :: "float64 \<Rightarrow> float64 \<Rightarrow> float64" where
  "float64_add NotANumber q = NotANumber"
| "float64_add p NotANumber = NotANumber"
| "float64_add PosInf NegInf = NotANumber"
| "float64_add NegInf PosInf = NotANumber"
| "float64_add PosInf q = PosInf"
| "float64_add p PosInf = PosInf"
| "float64_add NegInf q = NegInf"
| "float64_add p NegInf = NegInf"
| "float64_add NegZero NegZero = NegZero"
| "float64_add NegZero (Fin b) = Fin b"
| "float64_add (Fin a) NegZero = Fin a"
| "float64_add (Fin a) (Fin b) = (if float_overflow (a + b) then to_float64 (a + b) else Fin (a + b))"

section \<open>Financial math helpers\<close>

subsection \<open>xnpv\<close>

text \<open>
  \<^verbatim>\<open>
  def xnpv(rate, cashflows):
      t0 = cashflows[0][0]
      return float(sum(cf / (1 + rate) ** ((date - t0).days / 365.0)
                       for date, cf in cashflows))
  \<close>
  \<open>xnpv_term\<close> is one element of the generator; \<open>sum_terms\<close> is \<^verbatim>\<open>sum\<close> pulling the
  elements one by one, so the first element that raises ends the call. This is the
  function called with a Python float, as \<^verbatim>\<open>rate: float\<close> annotates it; the call with a
  numpy \<^verbatim>\<open>float64\<close> follows it.
\<close>

definition xnpv_term :: "real \<Rightarrow> datetime \<Rightarrow> datetime \<times> real \<Rightarrow> failure + pynum" where
  "xnpv_term rate t0 entry =
     (case entry of (date, cf) \<Rightarrow>
        (case float_pow (1 + rate) (real_of_int (timedelta_days date t0) / 365) of
           Inl e \<Rightarrow> Inl e
         | Inr p \<Rightarrow> truediv cf p))"

fun sum_terms :: "real \<Rightarrow> datetime \<Rightarrow> cashflows \<Rightarrow> pynum \<Rightarrow> failure + pynum" where
  "sum_terms rate t0 [] acc = Inr acc"
| "sum_terms rate t0 (entry # rest) acc =
     (case xnpv_term rate t0 entry of
        Inl e \<Rightarrow> Inl e
      | Inr v \<Rightarrow> sum_terms rate t0 rest (py_add acc v))"

definition xnpv :: "real \<Rightarrow> cashflows \<Rightarrow> failure + real" where
  "xnpv rate cashflows =
     (case cashflows of
        [] \<Rightarrow> Inl IndexError
      | (t0, _) # _ \<Rightarrow>
          (case sum_terms rate t0 cashflows (PyFloat 0) of
             Inl e \<Rightarrow> Inl e
           | Inr v \<Rightarrow> py_float v))"

text \<open>
  The same function called with a \<^verbatim>\<open>float64\<close> rate, as the root finder calls it: every
  term is a \<^verbatim>\<open>float64\<close>, nothing raises after \<^verbatim>\<open>cashflows[0]\<close>, and \<^verbatim>\<open>float()\<close> returns the
  sum as it is, infinite or not-a-number too.
\<close>

definition xnpv_term_float64 :: "real \<Rightarrow> datetime \<Rightarrow> datetime \<times> real \<Rightarrow> float64" where
  "xnpv_term_float64 rate t0 entry =
     (case entry of (date, cf) \<Rightarrow>
        float64_rtruediv cf (float64_pow (1 + rate) (real_of_int (timedelta_days date t0) / 365)))"

fun sum_terms_float64 :: "real \<Rightarrow> datetime \<Rightarrow> cashflows \<Rightarrow> float64 \<Rightarrow> float64" where
  "sum_terms_float64 rate t0 [] acc = acc"
| "sum_terms_float64 rate t0 (entry # rest) acc =
     sum_terms_float64 rate t0 rest (float64_add acc (xnpv_term_float64 rate t0 entry))"

definition xnpv_float64 :: "real \<Rightarrow> cashflows \<Rightarrow> failure + float64" where
  "xnpv_float64 rate cashflows =
     (case cashflows of
        [] \<Rightarrow> Inl IndexError
      | (t0, _) # _ \<Rightarrow> Inr (sum_terms_float64 rate t0 cashflows (Fin 0)))"

subsection \<open>xirr\<close>

text \<open>
  \<^verbatim>\<open>
  def xirr(cashflows):
      try:
          return float(newton(lambda r: xnpv(r, cashflows), 0.1))
      except RuntimeError:
          return float("nan")
  \<close>
  \<^verbatim>\<open>scipy.optimize.newton\<close> is a library routine and a parameter of \<open>xirr\<close>. It calls the
  function it is given with \<^verbatim>\<open>float64\<close> rates, so the callback is \<open>xnpv_float64\<close>. Only its
  \<^verbatim>\<open>RuntimeError\<close> is caught; any other exception leaves \<^verbatim>\<open>xirr\<close> as it is.
\<close>

definition xirr ::
  "((real \<Rightarrow> failure + float64) \<Rightarrow> real \<Rightarrow> failure + real) \<Rightarrow> cashflows \<Rightarrow> failure + pyvalue" where
  "xirr newton cashflows =
     (case newton (\<lambda>r. xnpv_float64 r cashflows) (1 / 10) of
        Inr r \<Rightarrow> Inr (Num (PyFloat r))
      | Inl e \<Rightarrow> if e = RuntimeError then Inr NaN else Inl e)"

text \<open>
  Modelled from the spec: the root finder \<^verbatim>\<open>newton\<close>, which is library code and not in the
  repository. Section 4.2 of the specification: Newton's method, \<open>r' = r - f r / f' r\<close> with
  \<open>f'\<close> estimated by a central difference of step \<open>h\<close>; the iteration has converged when
  \<open>|f r| < eps\<close> or when two successive iterates are less than \<open>tol\<close> apart; after \<open>cap\<close>
  iterations, or at a domain violation (a rate at or below \<open>- 1\<close>, a division by zero, a
  value that is not finite), there is no solution, which the library reports as a
  \<^verbatim>\<open>RuntimeError\<close>. An exception of the function itself passes through. The specification
  gives \<open>eps\<close>, \<open>tol\<close>, \<open>h\<close> and \<open>cap\<close> only roughly; they are parameters.
\<close>

fun spec_newton_iter ::
  "real \<Rightarrow> real \<Rightarrow> real \<Rightarrow> (real \<Rightarrow> failure + float64) \<Rightarrow> nat \<Rightarrow> real \<Rightarrow> failure + real" where
  "spec_newton_iter eps tol h f 0 r = Inl RuntimeError"
| "spec_newton_iter eps tol h f (Suc n) r =
     (if r \<le> - 1 then Inl RuntimeError
      else
        (case f r of
           Inl e \<Rightarrow> Inl e
         | Inr (Fin v) \<Rightarrow>
             if \<bar>v\<bar> < eps then Inr r
             else
               (case f (r + h) of
                  Inl e \<Rightarrow> Inl e
                | Inr (Fin a) \<Rightarrow>
                    (case f (r - h) of
                       Inl e \<Rightarrow> Inl e
                     | Inr (Fin b) \<Rightarrow>
                         (let d = (a - b) / (2 * h) in
                          if d = 0 then Inl RuntimeError
                          else
                            (let r' = r - v / d in
                             if \<bar>r' - r\<bar> < tol then Inr r'
                             else spec_newton_iter eps tol h f n r'))
                     | Inr _ \<Rightarrow> Inl RuntimeError)
                | Inr _ \<Rightarrow> Inl RuntimeError)
         | Inr _ \<Rightarrow> Inl RuntimeError))"

definition spec_newton ::
  "real \<Rightarrow> real \<Rightarrow> real \<Rightarrow> nat \<Rightarrow> (real \<Rightarrow> failure + float64) \<Rightarrow> real \<Rightarrow> failure + real" where
  "spec_newton eps tol h cap f x0 = spec_newton_iter eps tol h f cap x0"

subsection \<open>total_invested\<close>

text \<open>
  \<^verbatim>\<open>
  def total_invested(cashflows):
      return float(-sum(cf for _, cf in cashflows if cf < 0))
  \<close>
\<close>

definition total_invested :: "cashflows \<Rightarrow> real" where
  "total_invested cashflows = - (\<Sum>cf\<leftarrow>[cf. (_, cf) \<leftarrow> cashflows, cf < 0]. cf)"

subsection \<open>lump_cagr and portfolio_cagr\<close>

text \<open>
  \<^verbatim>\<open>
  def lump_cagr(start_val, end_val, start_date, end_date):
      years = (end_date - start_date).days / 365.0
      return (end_val / start_val) ** (1 / years) - 1 if years else float("nan")
  \<close>
  The conditional expression tests \<^verbatim>\<open>years\<close> first; the power is evaluated only when it is
  non-zero, left operand first.
\<close>

definition lump_cagr :: "real \<Rightarrow> real \<Rightarrow> datetime \<Rightarrow> datetime \<Rightarrow> failure + pyvalue" where
  "lump_cagr start_val end_val start_date end_date =
     (let years = real_of_int (timedelta_days end_date start_date) / 365 in
      if years \<noteq> 0 then
        (case float_div end_val start_val of
           Inl e \<Rightarrow> Inl e
         | Inr ratio \<Rightarrow>
             (case float_div 1 years of
                Inl e \<Rightarrow> Inl e
              | Inr ex \<Rightarrow>
                  (case float_pow ratio ex of
                     Inl e \<Rightarrow> Inl e
                   | Inr p \<Rightarrow> Inr (Num (py_sub_float p 1)))))
      else Inr NaN)"

text \<open>
  \<^verbatim>\<open>
  def portfolio_cagr(cashflows, current_value):
      invested = total_invested(cashflows)
      return lump_cagr(invested, current_value, cashflows[0][0], cashflows[-1][0])
  \<close>
\<close>

definition portfolio_cagr :: "cashflows \<Rightarrow> real \<Rightarrow> failure + pyvalue" where
  "portfolio_cagr cashflows current_value =
     (let invested = total_invested cashflows in
      case cashflows of
        [] \<Rightarrow> Inl IndexError
      | _ # _ \<Rightarrow> lump_cagr invested current_value (fst (hd cashflows)) (fst (last cashflows)))"

subsection \<open>sp_xirr_equivalent\<close>

text \<open>
  \<^verbatim>\<open>prices.iloc[-1]\<close> is the value of the last row, and
  \<^verbatim>\<open>prices[prices.index <= date].iloc[-1]\<close> the value of the last row dated at or before
  \<^verbatim>\<open>date\<close>; both raise \<^verbatim>\<open>IndexError\<close> when there is no such row.
\<close>

definition iloc_last :: "price_series \<Rightarrow> failure + real" where
  "iloc_last prices = (case prices of [] \<Rightarrow> Inl IndexError | _ # _ \<Rightarrow> Inr (snd (last prices)))"

definition price_at_or_before :: "price_series \<Rightarrow> datetime \<Rightarrow> failure + real" where
  "price_at_or_before prices date = iloc_last [(d, p) \<leftarrow> prices. d \<le> date]"

text \<open>
  \<^verbatim>\<open>
  shares = 0.0
  for date, amt in cashflows[:-1]:  # ignore final valuation
      if amt < 0:
          px = prices[prices.index <= date].iloc[-1]
          shares += (-amt) / px
  \<close>
  \<open>px\<close> is a numpy float: dividing by a zero price raises nothing and leaves the model
  (\<open>NonFinite\<close>).
\<close>

fun accumulate_shares :: "price_series \<Rightarrow> cashflows \<Rightarrow> real \<Rightarrow> failure + real" where
  "accumulate_shares prices [] shares = Inr shares"
| "accumulate_shares prices ((date, amt) # rest) shares =
     (if amt < 0 then
        (case price_at_or_before prices date of
           Inl e \<Rightarrow> Inl e
         | Inr px \<Rightarrow>
             if px = 0 then Inl NonFinite
             else accumulate_shares prices rest (shares + (- amt) / px))
      else accumulate_shares prices rest shares)"

text \<open>
  The series \<^verbatim>\<open>synthetic\<close> that \<^verbatim>\<open>sp_xirr_equivalent\<close> builds from the downloaded prices:
  \<^verbatim>\<open>
  begin, end = cashflows[0][0], cashflows[-1][0]
  ...
  final_value = shares * prices.iloc[-1]
  synthetic = cashflows[:-1] + [(end, final_value)]
  \<close>
\<close>

definition synthetic_cashflows :: "price_series \<Rightarrow> cashflows \<Rightarrow> failure + cashflows" where
  "synthetic_cashflows prices cashflows =
     (case cashflows of
        [] \<Rightarrow> Inl IndexError
      | _ # _ \<Rightarrow>
          (let end = fst (last cashflows) in
           case accumulate_shares prices (butlast cashflows) 0 of
             Inl e \<Rightarrow> Inl e
           | Inr shares \<Rightarrow>
               (case iloc_last prices of
                  Inl e \<Rightarrow> Inl e
                | Inr px_end \<Rightarrow>
                    (let final_value = shares * px_end in
                     Inr (butlast cashflows @ [(end, final_value)])))))"

text \<open>
  \<^verbatim>\<open>download_prices\<close> asks an outside price provider for the rows of the index between
  two dates; it is the parameter \<open>download_prices\<close>, and the series it returns is the
  argument \<open>prices\<close> of the functions above.
\<close>

definition sp_xirr_equivalent ::
  "((real \<Rightarrow> failure + float64) \<Rightarrow> real \<Rightarrow> failure + real) \<Rightarrow>
   (datetime \<Rightarrow> datetime \<Rightarrow> price_series) \<Rightarrow> cashflows \<Rightarrow> failure + pyvalue" where
  "sp_xirr_equivalent newton download_prices cashflows =
     (case cashflows of
        [] \<Rightarrow> Inl IndexError
      | _ # _ \<Rightarrow>
          (let begin = fst (hd cashflows); end = fst (last cashflows);
               prices = download_prices begin end in
           case synthetic_cashflows prices cashflows of
             Inl e \<Rightarrow> Inl e
           | Inr synthetic \<Rightarrow> xirr newton synthetic))"

section \<open>Notions of the specification\<close>

text \<open>
  The properties below are stated with the specification's own notions. They are not taken
  from the program. \<open>spec_priceLookup\<close> is "the latest known price at or before the date"; it
  is meaningful only when the series has a row at or before the date.
\<close>

definition spec_priceLookup :: "price_series \<Rightarrow> datetime \<Rightarrow> real" where
  "spec_priceLookup prices date = snd (last [(d, p) \<leftarrow> prices. d \<le> date])"

text \<open>The outflow entries: those with a negative amount.\<close>

definition spec_outflows :: "cashflows \<Rightarrow> cashflows" where
  "spec_outflows cashflows = [(d, a) \<leftarrow> cashflows. a < 0]"

text \<open>The accumulated shares: each outflow buys \<open>(- amount) / price\<close> shares at its date.\<close>

definition spec_shares :: "price_series \<Rightarrow> cashflows \<Rightarrow> real" where
  "spec_shares prices cashflows =
     (\<Sum>(d, a)\<leftarrow>spec_outflows cashflows. (- a) / spec_priceLookup prices d)"

text \<open>
  The output series as the specification words it: the outflow entries only, then the new
  final entry.
\<close>

definition spec_synthetic :: "price_series \<Rightarrow> cashflows \<Rightarrow> cashflows" where
  "spec_synthetic prices cashflows =
     spec_outflows (butlast cashflows) @
     [(fst (last cashflows),
       spec_shares prices (butlast cashflows) * spec_priceLookup prices (fst (last cashflows)))]"

text \<open>Whether a number is a Python \<^verbatim>\<open>complex\<close>.\<close>

fun is_complex :: "pynum \<Rightarrow> bool" where
  "is_complex (PyFloat a) = False"
| "is_complex (PyComplex c) = True"

section \<open>Dates\<close>

lemma timedelta_days_same [simp]: "timedelta_days d d = 0"
  by (simp add: timedelta_days_def)

text \<open>Two midnights differ by the number of calendar days between them.\<close>

lemma timedelta_days_midnight:
  "timedelta_days (a * us_per_day) (b * us_per_day) = a - b"
proof -
  have "a * us_per_day - b * us_per_day = (a - b) * us_per_day"
    by (simp add: algebra_simps)
  then show ?thesis
    by (simp add: timedelta_days_def us_per_day_def)
qed

section \<open>total_invested\<close>

lemma total_invested_Cons:
  "total_invested ((d, cf) # rest) = (if cf < 0 then - cf else 0) + total_invested rest"
  by (simp add: total_invested_def)

lemma total_invested_append:
  "total_invested (xs @ [(d, v)]) = total_invested xs + (if v < 0 then - v else 0)"
  by (simp add: total_invested_def)

text \<open>
  Claim C9. For every cash-flow list, the invested total is the sum of the magnitudes of
  the strictly negative amounts, an entry with a non-negative amount adding nothing, and it
  is never negative.
\<close>

theorem total_invested_sum_of_magnitudes:
  "total_invested cashflows = (\<Sum>(d, cf)\<leftarrow>cashflows. if cf < 0 then \<bar>cf\<bar> else 0)
   \<and> 0 \<le> total_invested cashflows"
proof (induction cashflows)
  case Nil
  show ?case by (simp add: total_invested_def)
next
  case (Cons entry rest)
  obtain d cf where entry: "entry = (d, cf)" by (cases entry)
  from Cons show ?case
    unfolding entry total_invested_Cons by simp
qed

section \<open>lump_cagr\<close>

lemma float_range_one [simp]: "\<not> float_overflow 1" "\<not> float_underflow 1"
  by (simp_all add: float_overflow_def float_underflow_def)

lemma float_pow_one: "float_pow 1 y = Inr (PyFloat 1)"
  by (simp add: float_pow_def flush_def)

lemma float64_pow_one: "float64_pow 1 y = Fin 1"
  by (simp add: float64_pow_def to_float64_def)

text \<open>
  Claim C6. For all values and every date \<open>d\<close>, \<open>lump_cagr v1 v2 d d\<close> is the not-a-number
  sentinel: with zero elapsed days the quotient and the power are never evaluated, so
  nothing is divided by zero.
\<close>

theorem lump_cagr_same_date_nan: "lump_cagr v1 v2 d d = Inr NaN"
  by (simp add: lump_cagr_def)

text \<open>
  Claim C8. For every value \<open>v > 0\<close> and every two different dates, that is, dates whose
  difference has a non-zero day field, \<open>lump_cagr v v d1 d2\<close> is 0: no growth. Dates are
  calendar days, held as datetimes at midnight, and two different calendar days are such
  dates (\<open>lump_cagr_same_value_calendar_days\<close> below).
\<close>

theorem lump_cagr_same_value_zero:
  assumes "0 < v" and "timedelta_days d2 d1 \<noteq> 0"
  shows "lump_cagr v v d1 d2 = Inr (Num (PyFloat 0))"
  using assms by (simp add: lump_cagr_def float_div_def float_pow_one)

theorem lump_cagr_same_value_zero_witness:
  "lump_cagr 1000 1000 0 (365 * us_per_day) = Inr (Num (PyFloat 0))"
  using lump_cagr_same_value_zero [of 1000 "365 * us_per_day" 0]
  by (simp add: timedelta_days_def us_per_day_def)

lemma lump_cagr_same_value_calendar_days:
  assumes "0 < v" and "a \<noteq> b"
  shows "lump_cagr v v (a * us_per_day) (b * us_per_day) = Inr (Num (PyFloat 0))"
  using assms
  by (simp add: lump_cagr_def float_div_def float_pow_one timedelta_days_midnight)

text \<open>
  Two times of one calendar day are a same-day start and end: zero elapsed years, and the
  sentinel.
\<close>

lemma lump_cagr_same_day_nan: "lump_cagr 5 5 0 43200000000 = Inr NaN"
  by (simp add: lump_cagr_def timedelta_days_def us_per_day_def)

text \<open>
  A zero start value with a non-zero day field: the quotient \<^verbatim>\<open>end_val / start_val\<close> is
  evaluated and raises.
\<close>

lemma lump_cagr_zero_start:
  "timedelta_days end_date start_date \<noteq> 0
     \<Longrightarrow> lump_cagr 0 end_val start_date end_date = Inl ZeroDivisionError"
  by (simp add: lump_cagr_def float_div_def)

text \<open>
  Claim C4 says that a start value \<open>\<le> 0\<close> gives the sentinel, as zero elapsed time does. The
  program guards the elapsed time only. A history with no outflow has an invested total
  of 0, and \<open>portfolio_cagr\<close> ends in \<^verbatim>\<open>ZeroDivisionError\<close>; so does \<open>lump_cagr\<close> for a
  zero start value one year before the end date, and a negative start value there gives
  the float \<open>- 3\<close>. None of the three is the sentinel.
\<close>

theorem lump_cagr_nonpositive_start_no_sentinel:
  "portfolio_cagr [(0, 500), (365 * us_per_day, 1000)] 1000 = Inl ZeroDivisionError
   \<and> lump_cagr 0 1000 0 (365 * us_per_day) = Inl ZeroDivisionError
   \<and> lump_cagr (- 1000) 2000 0 (365 * us_per_day) = Inr (Num (PyFloat (- 3)))"
  by (simp add: portfolio_cagr_def total_invested_def lump_cagr_def float_div_def float_pow_def
      timedelta_days_def us_per_day_def float_overflow_def flush_def float_underflow_def)

section \<open>xnpv\<close>

subsection \<open>Rate zero\<close>

lemma sum_terms_rate_zero:
  "sum_terms 0 t0 cashflows (PyFloat a) = Inr (PyFloat (a + (\<Sum>(d, cf)\<leftarrow>cashflows. cf)))"
  by (induction cashflows arbitrary: a)
     (auto simp: xnpv_term_def float_pow_one truediv_def)

text \<open>
  Claim C5. For every non-empty cash-flow series, the present value at rate 0 is the plain
  sum of the amounts.
\<close>

theorem xnpv_rate_zero_is_sum:
  assumes "cashflows \<noteq> []"
  shows "xnpv 0 cashflows = Inr (\<Sum>(d, cf)\<leftarrow>cashflows. cf)"
  using assms sum_terms_rate_zero [of _ cashflows 0]
  by (cases cashflows) (auto simp: xnpv_def)

theorem xnpv_rate_zero_is_sum_witness:
  "xnpv 0 [(0, - 1000), (200 * us_per_day, - 250), (365 * us_per_day, 1100)] = Inr (- 150)"
  using xnpv_rate_zero_is_sum
    [of "[(0, - 1000), (200 * us_per_day, - 250), (365 * us_per_day, 1100)]"]
  by simp

text \<open>With a \<^verbatim>\<open>float64\<close> rate 0 every term is the amount as well.\<close>

lemma xnpv_term_float64_rate_zero:
  "xnpv_term_float64 0 t0 (date, cf) = float64_rtruediv cf (Fin 1)"
  by (simp add: xnpv_term_float64_def float64_pow_one)

subsection \<open>Rates at or below minus one\<close>

text \<open>
  The exponent \<open>days / 365\<close> is a whole number exactly when 365 divides the number of days.
\<close>

lemma whole_years_iff:
  "(real_of_int n / 365 = of_int \<lfloor>real_of_int n / 365\<rfloor>) = (365 dvd n)"
proof
  assume "real_of_int n / 365 = of_int \<lfloor>real_of_int n / 365\<rfloor>"
  then have "real_of_int n = real_of_int (365 * \<lfloor>real_of_int n / 365\<rfloor>)" by simp
  then have "n = 365 * \<lfloor>real_of_int n / 365\<rfloor>" by (simp only: of_int_eq_iff)
  then show "365 dvd n" by (metis dvd_triv_left)
next
  assume "365 dvd n"
  then obtain k where "n = 365 * k" by (auto elim: dvdE)
  then show "real_of_int n / 365 = of_int \<lfloor>real_of_int n / 365\<rfloor>" by simp
qed

lemma complex_pow_cases:
  "complex_pow x y = Inl OverflowError \<or> (\<exists>c. complex_pow x y = Inr (PyComplex c))"
  by (simp add: complex_pow_def Let_def)

lemma float_pow_negative_whole:
  assumes "x < 0" and "y = of_int \<lfloor>y\<rfloor>"
  shows "float_pow x y = Inl OverflowError \<or> (\<exists>a. float_pow x y = Inr (PyFloat a))"
  using assms by (auto simp: float_pow_def Let_def)

lemma float_pow_negative_fraction:
  assumes "x < 0" and "y \<noteq> of_int \<lfloor>y\<rfloor>"
  shows "float_pow x y = Inl OverflowError \<or> (\<exists>c. float_pow x y = Inr (PyComplex c))"
proof -
  have "y \<noteq> 0" using assms(2) by auto
  then have "float_pow x y = complex_pow x y" using assms by (simp add: float_pow_def)
  then show ?thesis using complex_pow_cases [of x y] by simp
qed

lemma truediv_float_cases:
  "truediv cf (PyFloat a) = Inl ZeroDivisionError \<or> (\<exists>b. truediv cf (PyFloat a) = Inr (PyFloat b))"
  by (simp add: truediv_def)

lemma truediv_complex_cases:
  "truediv cf (PyComplex c) = Inl ZeroDivisionError \<or> (\<exists>b. truediv cf (PyComplex c) = Inr (PyComplex b))"
  by (simp add: truediv_def)

lemma xnpv_term_below_minus_one:
  assumes "rate < - 1"
  shows "xnpv_term rate t0 (date, cf) = Inl ZeroDivisionError
       \<or> xnpv_term rate t0 (date, cf) = Inl OverflowError
       \<or> (\<exists>v. xnpv_term rate t0 (date, cf) = Inr v \<and>
             (is_complex v = (\<not> 365 dvd timedelta_days date t0)))"
proof (cases "365 dvd timedelta_days date t0")
  case True
  then have whole: "real_of_int (timedelta_days date t0) / 365
                 = of_int \<lfloor>real_of_int (timedelta_days date t0) / 365\<rfloor>"
    by (simp only: whole_years_iff)
  have neg: "1 + rate < 0" using assms by simp
  from float_pow_negative_whole [OF neg whole] show ?thesis
  proof
    assume "float_pow (1 + rate) (real_of_int (timedelta_days date t0) / 365) = Inl OverflowError"
    then show ?thesis by (simp add: xnpv_term_def)
  next
    assume "\<exists>a. float_pow (1 + rate) (real_of_int (timedelta_days date t0) / 365) = Inr (PyFloat a)"
    then obtain a where "float_pow (1 + rate) (real_of_int (timedelta_days date t0) / 365) = Inr (PyFloat a)"
      by blast
    then show ?thesis using truediv_float_cases [of cf a] True
      by (auto simp: xnpv_term_def)
  qed
next
  case False
  then have frac: "real_of_int (timedelta_days date t0) / 365
                 \<noteq> of_int \<lfloor>real_of_int (timedelta_days date t0) / 365\<rfloor>"
    by (simp only: whole_years_iff not_False_eq_True)
  have neg: "1 + rate < 0" using assms by simp
  from float_pow_negative_fraction [OF neg frac] show ?thesis
  proof
    assume "float_pow (1 + rate) (real_of_int (timedelta_days date t0) / 365) = Inl OverflowError"
    then show ?thesis by (simp add: xnpv_term_def)
  next
    assume "\<exists>c. float_pow (1 + rate) (real_of_int (timedelta_days date t0) / 365) = Inr (PyComplex c)"
    then obtain c where "float_pow (1 + rate) (real_of_int (timedelta_days date t0) / 365) = Inr (PyComplex c)"
      by blast
    then show ?thesis using truediv_complex_cases [of cf c] False
      by (auto simp: xnpv_term_def)
  qed
qed

lemma is_complex_py_add: "is_complex (py_add a b) = (is_complex a \<or> is_complex b)"
  by (cases a; cases b) simp_all

lemma sum_terms_below_minus_one:
  assumes "rate < - 1"
  shows "sum_terms rate t0 cashflows acc = Inl ZeroDivisionError
       \<or> sum_terms rate t0 cashflows acc = Inl OverflowError
       \<or> (\<exists>v. sum_terms rate t0 cashflows acc = Inr v \<and>
             (is_complex v =
               (is_complex acc \<or>
                (\<exists>date cf. (date, cf) \<in> set cashflows \<and> \<not> 365 dvd timedelta_days date t0))))"
proof (induction cashflows arbitrary: acc)
  case Nil
  then show ?case by simp
next
  case (Cons entry rest)
  obtain d a where entry: "entry = (d, a)" by (cases entry)
  consider (zero) "xnpv_term rate t0 (d, a) = Inl ZeroDivisionError"
    | (over) "xnpv_term rate t0 (d, a) = Inl OverflowError"
    | (val) v where "xnpv_term rate t0 (d, a) = Inr v"
        "is_complex v = (\<not> 365 dvd timedelta_days d t0)"
    using xnpv_term_below_minus_one [OF assms, of t0 d a] by blast
  then show ?case
  proof cases
    case zero
    then show ?thesis using entry by simp
  next
    case over
    then show ?thesis using entry by simp
  next
    case val
    have step: "sum_terms rate t0 (entry # rest) acc = sum_terms rate t0 rest (py_add acc v)"
      using entry val(1) by simp
    consider (zero) "sum_terms rate t0 rest (py_add acc v) = Inl ZeroDivisionError"
      | (over) "sum_terms rate t0 rest (py_add acc v) = Inl OverflowError"
      | (sum) w where "sum_terms rate t0 rest (py_add acc v) = Inr w"
          "is_complex w = (is_complex (py_add acc v) \<or>
             (\<exists>date cf. (date, cf) \<in> set rest \<and> \<not> 365 dvd timedelta_days date t0))"
      using Cons.IH [of "py_add acc v"] by blast
    then show ?thesis
    proof cases
      case zero
      then show ?thesis using step by simp
    next
      case over
      then show ?thesis using step by simp
    next
      case sum
      have "is_complex w =
          (is_complex acc \<or>
           (\<exists>date cf. (date, cf) \<in> set (entry # rest) \<and> \<not> 365 dvd timedelta_days date t0))"
        using sum(2) val(2) entry by (auto simp: is_complex_py_add)
      then show ?thesis using step sum(1) by simp
    qed
  qed
qed

lemma py_float_complex: "is_complex v \<Longrightarrow> py_float v = Inl TypeError"
  by (cases v) simp_all

text \<open>
  Below \<open>- 1\<close> the base is negative: a term is complex exactly when its exponent is not a
  whole number, and once a complex term is added the sum stays complex, until \<^verbatim>\<open>float()\<close>
  refuses it. On the way a power may overflow, or be rounded to zero and then divided by.
\<close>

lemma xnpv_below_minus_one:
  assumes "rate < - 1" and "(date, cf) \<in> set cashflows"
    and "\<not> 365 dvd timedelta_days date (fst (hd cashflows))"
  shows "xnpv rate cashflows = Inl ZeroDivisionError
       \<or> xnpv rate cashflows = Inl TypeError
       \<or> xnpv rate cashflows = Inl OverflowError"
proof -
  obtain t0 a rest where cfs: "cashflows = (t0, a) # rest"
    using assms(2) by (cases cashflows) auto
  have off: "\<not> 365 dvd timedelta_days date t0" using assms(3) cfs by simp
  consider (zero) "sum_terms rate t0 cashflows (PyFloat 0) = Inl ZeroDivisionError"
    | (over) "sum_terms rate t0 cashflows (PyFloat 0) = Inl OverflowError"
    | (sum) v where "sum_terms rate t0 cashflows (PyFloat 0) = Inr v" "is_complex v"
    using sum_terms_below_minus_one [OF assms(1), of t0 cashflows "PyFloat 0"] assms(2) off
    by auto
  then show ?thesis
  proof cases
    case zero
    then show ?thesis using cfs by (simp add: xnpv_def)
  next
    case over
    then show ?thesis using cfs by (simp add: xnpv_def)
  next
    case sum
    then show ?thesis using cfs py_float_complex [OF sum(2)] by (simp add: xnpv_def)
  qed
qed

text \<open>
  At rate \<open>- 1\<close> the base of the power is 0: an entry on the first day has the factor
  \<open>0 ** 0 = 1\<close>, any other entry divides by zero or raises zero to a negative power.
\<close>

lemma xnpv_term_rate_minus_one:
  "timedelta_days date t0 \<noteq> 0 \<Longrightarrow> xnpv_term (- 1) t0 (date, cf) = Inl ZeroDivisionError"
  by (simp add: xnpv_term_def float_pow_def truediv_def)

lemma xnpv_term_rate_minus_one_same_day:
  "timedelta_days date t0 = 0 \<Longrightarrow> xnpv_term (- 1) t0 (date, cf) = Inr (PyFloat cf)"
  by (simp add: xnpv_term_def float_pow_def truediv_def)

lemma sum_terms_rate_minus_one:
  assumes "(date, cf) \<in> set cashflows" and "timedelta_days date t0 \<noteq> 0"
  shows "sum_terms (- 1) t0 cashflows acc = Inl ZeroDivisionError"
  using assms(1)
proof (induction cashflows arbitrary: acc)
  case Nil
  then show ?case by simp
next
  case (Cons entry rest)
  obtain d a where entry: "entry = (d, a)" by (cases entry)
  show ?case
  proof (cases "timedelta_days d t0 = 0")
    case True
    then have "(date, cf) \<in> set rest" using Cons.prems entry assms(2) by auto
    then show ?thesis
      using Cons.IH entry True by (simp add: xnpv_term_rate_minus_one_same_day)
  next
    case False
    then show ?thesis using entry by (simp add: xnpv_term_rate_minus_one)
  qed
qed

lemma xnpv_float64_returns:
  "cashflows \<noteq> [] \<Longrightarrow> \<exists>v. xnpv_float64 rate cashflows = Inr v"
  by (cases cashflows) (auto simp: xnpv_float64_def)

text \<open>
  Claim C3 fails twice. \<open>xnpv\<close> has no check of the rate: at the Python float \<open>- 2\<close>, with
  the second entry exactly 365 days after the first, the exponent is 1, the power is the
  float \<open>- 1\<close>, and the call returns \<open>- 1000 + 1100 / (- 1) = - 2100\<close>. And at the \<^verbatim>\<open>float64\<close>
  rate \<open>- 3 / 2\<close>, the kind of rate the root finder passes, with the second entry 100 days
  after the first, the power is not-a-number and so is the value returned; nothing is
  raised.
\<close>

theorem xnpv_invalid_rate_counterexample:
  "(- 2::real) \<le> - 1 \<and> (0::datetime) < 365 * us_per_day
   \<and> xnpv (- 2) [(0, - 1000), (365 * us_per_day, 1100)] = Inr (- 2100)
   \<and> xnpv_float64 (- 3 / 2) [(0, - 1000), (100 * us_per_day, 1100)] = Inr NotANumber"
  by (simp add: xnpv_def xnpv_term_def float_pow_def truediv_def timedelta_days_def
      us_per_day_def float_overflow_def flush_def float_underflow_def
      xnpv_float64_def xnpv_term_float64_def float64_pow_def float64_rtruediv_def
      to_float64_def)

text \<open>
  Claim C3, amended. For a Python float rate \<open>r \<le> - 1\<close>, \<open>xnpv\<close> returns no value, neither a
  complex number nor the sentinel, for every series with an entry a non-zero number of whole
  days from the first when \<open>r = - 1\<close>, and with an entry whose number of whole days from the
  first is not a multiple of 365 when \<open>r < - 1\<close>. At \<open>r = - 1\<close> it raises
  \<^verbatim>\<open>ZeroDivisionError\<close>; below, \<^verbatim>\<open>TypeError\<close> where \<^verbatim>\<open>float()\<close> refuses the complex sum, unless a
  power overflowed (\<^verbatim>\<open>OverflowError\<close>) or was rounded to zero (\<^verbatim>\<open>ZeroDivisionError\<close>)
  before. For a \<^verbatim>\<open>float64\<close> rate, as the root finder passes it, nothing is raised and a
  \<^verbatim>\<open>float64\<close> is returned, which may be infinite or not-a-number.
\<close>

theorem xnpv_invalid_rate_raises:
  assumes "rate \<le> - 1"
    and "(date, cf) \<in> set cashflows"
    and "if rate = - 1 then timedelta_days date (fst (hd cashflows)) \<noteq> 0
         else \<not> 365 dvd timedelta_days date (fst (hd cashflows))"
  shows "(xnpv rate cashflows = Inl ZeroDivisionError
          \<or> rate < - 1 \<and> (xnpv rate cashflows = Inl TypeError
                           \<or> xnpv rate cashflows = Inl OverflowError))
       \<and> (\<exists>v. xnpv_float64 rate cashflows = Inr v)"
proof -
  obtain t0 a rest where cfs: "cashflows = (t0, a) # rest"
    using assms(2) by (cases cashflows) auto
  have np: "\<exists>v. xnpv_float64 rate cashflows = Inr v"
    using cfs xnpv_float64_returns [of cashflows rate] by simp
  show ?thesis
  proof (cases "rate = - 1")
    case True
    then have "timedelta_days date t0 \<noteq> 0" using assms(3) cfs by simp
    then have "sum_terms (- 1) t0 cashflows (PyFloat 0) = Inl ZeroDivisionError"
      using sum_terms_rate_minus_one assms(2) by blast
    then have "xnpv rate cashflows = Inl ZeroDivisionError"
      using True cfs by (simp add: xnpv_def)
    then show ?thesis using np by simp
  next
    case False
    then have below: "rate < - 1" using assms(1) by simp
    have "\<not> 365 dvd timedelta_days date (fst (hd cashflows))" using False assms(3) by simp
    then show ?thesis
      using xnpv_below_minus_one [OF below assms(2)] below np by blast
  qed
qed

theorem xnpv_invalid_rate_raises_witness:
  "xnpv (- 1) [(0, - 1000), (365 * us_per_day, 1100)] = Inl ZeroDivisionError
   \<and> (\<exists>v. xnpv_float64 (- 1) [(0, - 1000), (365 * us_per_day, 1100)] = Inr v)"
  using xnpv_invalid_rate_raises
    [of "- 1" "365 * us_per_day" 1100 "[(0, - 1000), (365 * us_per_day, 1100)]"]
  by (simp add: timedelta_days_def us_per_day_def)

text \<open>
  Below \<open>- 1\<close> with a fractional exponent in range, the sum is complex and \<^verbatim>\<open>float()\<close>
  raises; at \<open>- 1\<close> the \<^verbatim>\<open>float64\<close> sum is infinite.
\<close>

lemma xnpv_rate_minus_one_float64_example:
  "xnpv_float64 (- 1) [(0, - 1000), (100 * us_per_day, 1100)] = Inr PosInf"
  by (simp add: xnpv_float64_def xnpv_term_float64_def float64_pow_def float64_rtruediv_def
      to_float64_def float_overflow_def float_underflow_def timedelta_days_def us_per_day_def)

section \<open>The synthetic benchmark series\<close>

subsection \<open>Price lookups\<close>

lemma rows_at_or_before_nonempty:
  assumes "(d', p) \<in> set prices" and "d' \<le> date"
  shows "[(d, p) \<leftarrow> prices. d \<le> date] \<noteq> []"
proof -
  have "(d', p) \<in> set [(d, p) \<leftarrow> prices. d \<le> date]" using assms by simp
  then show ?thesis by (metis empty_iff list.set(1))
qed

lemma price_at_or_before_defined:
  assumes "(d', p) \<in> set prices" and "d' \<le> date"
  shows "price_at_or_before prices date = Inr (spec_priceLookup prices date)"
  using rows_at_or_before_nonempty [OF assms]
  by (cases "[(d, p) \<leftarrow> prices. d \<le> date]")
     (simp_all add: price_at_or_before_def iloc_last_def spec_priceLookup_def)

lemma priceLookup_positive:
  assumes "(d', p) \<in> set prices" and "d' \<le> date" and "\<forall>(d, p) \<in> set prices. 0 < p"
  shows "0 < spec_priceLookup prices date"
proof -
  have "last [(d, p) \<leftarrow> prices. d \<le> date] \<in> set [(d, p) \<leftarrow> prices. d \<le> date]"
    using rows_at_or_before_nonempty [OF assms(1,2)] by (rule last_in_set)
  then have "last [(d, p) \<leftarrow> prices. d \<le> date] \<in> set prices" by simp
  with assms(3) show ?thesis unfolding spec_priceLookup_def by (auto simp: case_prod_beta)
qed

text \<open>
  When no row of the series is dated after \<open>date\<close>, as for the rows downloaded up to the
  final date, the last row is the price at \<open>date\<close>.
\<close>

lemma iloc_last_is_priceLookup:
  assumes "\<forall>(d, p) \<in> set prices. d \<le> date" and "prices \<noteq> []"
  shows "iloc_last prices = Inr (spec_priceLookup prices date)"
proof -
  have "[(d, p) \<leftarrow> prices. d \<le> date] = prices" using assms(1) by (auto intro: filter_True)
  then show ?thesis
    using assms(2) by (cases prices) (simp_all add: iloc_last_def spec_priceLookup_def)
qed

subsection \<open>The share loop\<close>

lemma accumulate_shares_defined:
  assumes "\<forall>(d, a) \<in> set cashflows. a < 0 \<longrightarrow> (\<exists>(d', p) \<in> set prices. d' \<le> d)"
    and "\<forall>(d, p) \<in> set prices. 0 < p"
  shows "accumulate_shares prices cashflows shares
           = Inr (shares + spec_shares prices cashflows)"
  using assms(1)
proof (induction cashflows arbitrary: shares)
  case Nil
  then show ?case by (simp add: spec_shares_def spec_outflows_def)
next
  case (Cons entry rest)
  obtain d a where entry: "entry = (d, a)" by (cases entry)
  have IH: "\<And>s. accumulate_shares prices rest s = Inr (s + spec_shares prices rest)"
    using Cons by simp
  show ?case
  proof (cases "a < 0")
    case True
    then obtain d' p where row: "(d', p) \<in> set prices" "d' \<le> d"
      using Cons.prems entry by auto
    have "0 < spec_priceLookup prices d" using priceLookup_positive [OF row assms(2)] .
    then show ?thesis
      using True entry IH price_at_or_before_defined [OF row]
      by (simp add: spec_shares_def spec_outflows_def)
  next
    case False
    then show ?thesis using entry IH by (simp add: spec_shares_def spec_outflows_def)
  qed
qed

text \<open>Entries that are not outflows leave the share count as it is.\<close>

lemma accumulate_shares_outflows:
  "accumulate_shares prices (spec_outflows cashflows) shares
     = accumulate_shares prices cashflows shares"
  by (induction cashflows arbitrary: shares) (auto simp: spec_outflows_def split: sum.splits)

lemma spec_shares_nonneg:
  assumes "\<forall>(d, a) \<in> set cashflows. a < 0 \<longrightarrow> (\<exists>(d', p) \<in> set prices. d' \<le> d)"
    and "\<forall>(d, p) \<in> set prices. 0 < p"
  shows "0 \<le> spec_shares prices cashflows"
  using assms(1)
proof (induction cashflows)
  case Nil
  then show ?case by (simp add: spec_shares_def spec_outflows_def)
next
  case (Cons entry rest)
  obtain d a where entry: "entry = (d, a)" by (cases entry)
  have IH: "0 \<le> spec_shares prices rest" using Cons by simp
  show ?case
  proof (cases "a < 0")
    case True
    then obtain d' p where row: "(d', p) \<in> set prices" "d' \<le> d"
      using Cons.prems entry by auto
    have "0 < spec_priceLookup prices d" using priceLookup_positive [OF row assms(2)] .
    then have "0 \<le> (- a) / spec_priceLookup prices d"
      using True by (simp add: divide_nonpos_pos)
    then show ?thesis using True entry IH by (simp add: spec_shares_def spec_outflows_def)
  next
    case False
    then show ?thesis using entry IH by (simp add: spec_shares_def spec_outflows_def)
  qed
qed

subsection \<open>The series that is built\<close>

lemma synthetic_cashflows_defined:
  assumes "cashflows \<noteq> []"
    and "\<forall>(d, a) \<in> set (butlast cashflows). a < 0 \<longrightarrow> (\<exists>(d', p) \<in> set prices. d' \<le> d)"
    and "prices \<noteq> []"
    and "\<forall>(d, p) \<in> set prices. 0 < p"
  shows "synthetic_cashflows prices cashflows =
           Inr (butlast cashflows @
                [(fst (last cashflows),
                  spec_shares prices (butlast cashflows) * snd (last prices))])"
  using assms(1,3) accumulate_shares_defined [OF assms(2,4), of 0]
  by (cases cashflows; cases prices) (simp_all add: synthetic_cashflows_def iloc_last_def)

lemma last_row_is_priceLookup:
  assumes "\<forall>(d, p) \<in> set prices. d \<le> date" and "prices \<noteq> []"
  shows "snd (last prices) = spec_priceLookup prices date"
proof -
  have "Inr (snd (last prices)) = Inr (spec_priceLookup prices date)"
    using iloc_last_is_priceLookup [OF assms] assms(2)
    by (cases prices) (simp_all add: iloc_last_def)
  then show ?thesis by simp
qed

lemma last_price_positive:
  assumes "prices \<noteq> []" and "\<forall>(d, p) \<in> set prices. 0 < p"
  shows "0 < snd (last (prices :: price_series))"
proof -
  have "last prices \<in> set prices" using assms(1) by (rule last_in_set)
  with assms(2) show ?thesis by (auto simp: case_prod_beta)
qed

text \<open>
  Claim C1 fails: the series is built from \<^verbatim>\<open>cashflows[:-1]\<close>, all of it. With a dividend
  of 40 between a purchase and the valuation, the dividend is in the series the program
  builds and not in the series the claim describes.
\<close>

theorem synthetic_outflows_only_counterexample:
  "synthetic_cashflows [(0, 100), (31 * us_per_day, 200), (365 * us_per_day, 250)]
       [(0, - 500), (10 * us_per_day, 40), (365 * us_per_day, 3000)]
     = Inr [(0, - 500), (10 * us_per_day, 40), (365 * us_per_day, 1250)]
   \<and> spec_synthetic [(0, 100), (31 * us_per_day, 200), (365 * us_per_day, 250)]
       [(0, - 500), (10 * us_per_day, 40), (365 * us_per_day, 3000)]
     = [(0, - 500), (365 * us_per_day, 1250)]"
  by (simp add: synthetic_cashflows_def price_at_or_before_def iloc_last_def
      spec_synthetic_def spec_shares_def spec_outflows_def spec_priceLookup_def us_per_day_def)

text \<open>
  Claim C1, amended. For every non-empty cash-flow series and every series of positive
  prices that has a row at or before each non-final outflow date and ends at or before the
  final date, the synthetic series consists of all the original non-final entries, outflows
  or not, unchanged and in their order, followed by one new entry at the original last
  date whose amount is the accumulated shares times the price at that date. The shares are
  those bought by the outflow entries alone.
\<close>

theorem synthetic_cashflows_shape:
  assumes "cashflows \<noteq> []"
    and "\<forall>(d, a) \<in> set (butlast cashflows). a < 0 \<longrightarrow> (\<exists>(d', p) \<in> set prices. d' \<le> d)"
    and "prices \<noteq> []"
    and "\<forall>(d, p) \<in> set prices. d \<le> fst (last cashflows)"
    and "\<forall>(d, p) \<in> set prices. 0 < p"
  shows "synthetic_cashflows prices cashflows =
           Inr (butlast cashflows @
                [(fst (last cashflows),
                  spec_shares prices (butlast cashflows)
                    * spec_priceLookup prices (fst (last cashflows)))])"
  using synthetic_cashflows_defined [OF assms(1,2,3,5)] last_row_is_priceLookup [OF assms(4,3)]
  by simp

theorem synthetic_cashflows_shape_witness:
  "synthetic_cashflows [(0, 100), (31 * us_per_day, 200), (365 * us_per_day, 250)]
       [(0, - 500), (10 * us_per_day, 40), (31 * us_per_day, - 500), (365 * us_per_day, 3000)]
   = Inr [(0, - 500), (10 * us_per_day, 40), (31 * us_per_day, - 500),
          (365 * us_per_day, 1875)]"
  using synthetic_cashflows_shape
    [of "[(0, - 500), (10 * us_per_day, 40), (31 * us_per_day, - 500),
          (365 * us_per_day, 3000)]"
        "[(0, 100), (31 * us_per_day, 200), (365 * us_per_day, 250)]"]
  by (simp add: spec_shares_def spec_outflows_def spec_priceLookup_def us_per_day_def)

text \<open>
  When every non-final entry is an outflow, the series built is the one the specification
  words.
\<close>

lemma synthetic_cashflows_all_outflows:
  assumes "cashflows \<noteq> []"
    and "\<forall>(d, a) \<in> set (butlast cashflows). a < 0"
    and "\<forall>(d, a) \<in> set (butlast cashflows). \<exists>(d', p) \<in> set prices. d' \<le> d"
    and "prices \<noteq> []"
    and "\<forall>(d, p) \<in> set prices. d \<le> fst (last cashflows)"
    and "\<forall>(d, p) \<in> set prices. 0 < p"
  shows "synthetic_cashflows prices cashflows = Inr (spec_synthetic prices cashflows)"
proof -
  have look: "\<forall>(d, a) \<in> set (butlast cashflows). a < 0 \<longrightarrow> (\<exists>(d', p) \<in> set prices. d' \<le> d)"
    using assms(3) by auto
  have "spec_outflows (butlast cashflows) = butlast cashflows"
    unfolding spec_outflows_def using assms(2) by (auto intro: filter_True)
  then show ?thesis
    using synthetic_cashflows_defined [OF assms(1) look assms(4,6)]
      last_row_is_priceLookup [OF assms(5,4)]
    by (simp add: spec_synthetic_def)
qed

text \<open>
  Claim C10. For every non-empty cash-flow series and every series of positive prices
  with a row at or before each non-final outflow date, the synthetic series holds every
  non-final entry of the input, also those with a non-negative amount, unchanged and in
  order, and one final entry: it is as long as the input and ends at the input's last
  date. The shares behind the final amount are those the loop accumulates over the
  negative-amount entries alone.
\<close>

theorem synthetic_keeps_all_entries:
  assumes "cashflows \<noteq> []"
    and "\<forall>(d, a) \<in> set (butlast cashflows). a < 0 \<longrightarrow> (\<exists>(d', p) \<in> set prices. d' \<le> d)"
    and "prices \<noteq> []"
    and "\<forall>(d, p) \<in> set prices. 0 < p"
  shows "\<exists>synthetic shares.
           synthetic_cashflows prices cashflows = Inr synthetic
           \<and> length synthetic = length cashflows
           \<and> butlast synthetic = butlast cashflows
           \<and> fst (last synthetic) = fst (last cashflows)
           \<and> accumulate_shares prices (spec_outflows (butlast cashflows)) 0 = Inr shares
           \<and> snd (last synthetic) = shares * snd (last prices)"
proof -
  let ?shares = "spec_shares prices (butlast cashflows)"
  let ?synthetic = "butlast cashflows @ [(fst (last cashflows), ?shares * snd (last prices))]"
  have "synthetic_cashflows prices cashflows = Inr ?synthetic"
    using synthetic_cashflows_defined [OF assms] .
  moreover have "length ?synthetic = length cashflows" using assms(1) by simp
  moreover have "butlast ?synthetic = butlast cashflows" by simp
  moreover have "fst (last ?synthetic) = fst (last cashflows)" by simp
  moreover have "accumulate_shares prices (spec_outflows (butlast cashflows)) 0 = Inr ?shares"
    using accumulate_shares_defined [OF assms(2,4), of 0]
    by (simp add: accumulate_shares_outflows)
  moreover have "snd (last ?synthetic) = ?shares * snd (last prices)" by simp
  ultimately show ?thesis by blast
qed

theorem synthetic_keeps_all_entries_witness:
  "\<exists>synthetic.
     synthetic_cashflows [(0, 100), (31 * us_per_day, 200), (365 * us_per_day, 250)]
       [(0, - 500), (10 * us_per_day, 40), (31 * us_per_day, - 500), (365 * us_per_day, 3000)]
       = Inr synthetic
     \<and> length synthetic = 4
     \<and> butlast synthetic = [(0, - 500), (10 * us_per_day, 40), (31 * us_per_day, - 500)]
     \<and> last synthetic = (365 * us_per_day, 1875)"
  using synthetic_keeps_all_entries
    [of "[(0, - 500), (10 * us_per_day, 40), (31 * us_per_day, - 500),
          (365 * us_per_day, 3000)]"
        "[(0, 100), (31 * us_per_day, 200), (365 * us_per_day, 250)]"]
  by (auto simp add: spec_outflows_def price_at_or_before_def iloc_last_def us_per_day_def
      prod_eq_iff)

subsection \<open>The invested total of the synthetic series\<close>

lemma total_invested_synthetic:
  assumes ne: "cashflows \<noteq> []"
    and look: "\<forall>(d, a) \<in> set (butlast cashflows). a < 0 \<longrightarrow> (\<exists>(d', p) \<in> set prices. d' \<le> d)"
    and pne: "prices \<noteq> []"
    and pos: "\<forall>(d, p) \<in> set prices. 0 < p"
    and valuation: "0 \<le> snd (last cashflows)"
  shows "\<exists>synthetic. synthetic_cashflows prices cashflows = Inr synthetic
           \<and> total_invested synthetic = total_invested cashflows"
proof -
  let ?final = "spec_shares prices (butlast cashflows) * snd (last prices)"
  have built: "synthetic_cashflows prices cashflows =
      Inr (butlast cashflows @ [(fst (last cashflows), ?final)])"
    using synthetic_cashflows_defined [OF ne look pne pos] .
  have "0 \<le> ?final"
    using spec_shares_nonneg [OF look pos] last_price_positive [OF pne pos] by simp
  then have new: "total_invested (butlast cashflows @ [(fst (last cashflows), ?final)])
      = total_invested (butlast cashflows)"
    by (simp add: total_invested_append)
  have "cashflows = butlast cashflows @ [(fst (last cashflows), snd (last cashflows))]"
    using ne by simp
  then have "total_invested cashflows
      = total_invested (butlast cashflows @ [(fst (last cashflows), snd (last cashflows))])"
    by simp
  then have old: "total_invested cashflows = total_invested (butlast cashflows)"
    using valuation by (simp only: total_invested_append) simp
  show ?thesis using built new old by simp
qed

text \<open>
  Claim C7. For every cash-flow series whose non-final entries all have a negative amount
  and whose last entry is the valuation (an amount that is not negative), and every series
  of positive prices with a row at or before each of those dates, the invested total of the
  synthetic series equals the invested total of the original series: the outflows are
  copied as they are and the new final amount is not negative. (By
  \<open>total_invested_synthetic\<close> the equality holds as well when some non-final entries are
  not outflows.)
\<close>

theorem synthetic_total_invested_preserved:
  assumes "cashflows \<noteq> []"
    and "\<forall>(d, a) \<in> set (butlast cashflows). a < 0"
    and "0 \<le> snd (last cashflows)"
    and "\<forall>(d, a) \<in> set (butlast cashflows). \<exists>(d', p) \<in> set prices. d' \<le> d"
    and "prices \<noteq> []"
    and "\<forall>(d, p) \<in> set prices. 0 < p"
  shows "\<exists>synthetic. synthetic_cashflows prices cashflows = Inr synthetic
           \<and> total_invested synthetic = total_invested cashflows"
proof -
  have "\<forall>(d, a) \<in> set (butlast cashflows). a < 0 \<longrightarrow> (\<exists>(d', p) \<in> set prices. d' \<le> d)"
    using assms(4) by auto
  then show ?thesis
    using total_invested_synthetic assms(1,3,5,6) by blast
qed

theorem synthetic_total_invested_preserved_witness:
  "\<exists>synthetic.
     synthetic_cashflows [(0, 100), (31 * us_per_day, 200), (365 * us_per_day, 250)]
       [(0, - 500), (31 * us_per_day, - 500), (365 * us_per_day, 3000)] = Inr synthetic
     \<and> total_invested synthetic = 1000"
  using synthetic_total_invested_preserved
    [of "[(0, - 500), (31 * us_per_day, - 500), (365 * us_per_day, 3000)]"
        "[(0, 100), (31 * us_per_day, 200), (365 * us_per_day, 250)]"]
  by (simp add: total_invested_def us_per_day_def)

section \<open>xirr and sp_xirr_equivalent\<close>

text \<open>
  What \<open>xirr\<close> adds to the root finder: the root is passed on, a \<^verbatim>\<open>RuntimeError\<close> becomes the
  sentinel, and every other exception is passed on.
\<close>

lemma xirr_root:
  "newton (\<lambda>r. xnpv_float64 r cashflows) (1 / 10) = Inr r
     \<Longrightarrow> xirr newton cashflows = Inr (Num (PyFloat r))"
  by (simp add: xirr_def)

lemma xirr_runtime_error:
  "newton (\<lambda>r. xnpv_float64 r cashflows) (1 / 10) = Inl RuntimeError
     \<Longrightarrow> xirr newton cashflows = Inr NaN"
  by (simp add: xirr_def)

lemma xirr_other_exception:
  "newton (\<lambda>r. xnpv_float64 r cashflows) (1 / 10) = Inl e \<Longrightarrow> e \<noteq> RuntimeError
     \<Longrightarrow> xirr newton cashflows = Inl e"
  by (simp add: xirr_def)






text \<open>
  A series of one positive amount has no rate: the present value is the amount at every
  rate, the estimated slope is zero, and \<open>xirr\<close> returns the sentinel.
\<close>

lemma xnpv_float64_single_example: "xnpv_float64 r [(0, 1000)] = Inr (Fin 1000)"
  by (simp add: xnpv_float64_def xnpv_term_float64_def float64_pow_def float64_rtruediv_def
      to_float64_def float_overflow_def float_underflow_def timedelta_days_def)

lemma xirr_no_solution_example:
  assumes "eps \<le> 1000" and "h \<noteq> 0"
  shows "xirr (spec_newton eps tol h (Suc n)) [(0, 1000)] = Inr NaN"
  using assms by (simp add: xirr_def spec_newton_def xnpv_float64_single_example)

text \<open>\<open>sp_xirr_equivalent\<close> is \<open>xirr\<close> of the synthetic series built from the downloaded prices.\<close>

lemma sp_xirr_equivalent_synthetic:
  assumes "cashflows \<noteq> []"
    and "synthetic_cashflows (download_prices (fst (hd cashflows)) (fst (last cashflows)))
           cashflows = Inr synthetic"
  shows "sp_xirr_equivalent newton download_prices cashflows = xirr newton synthetic"
  using assms by (cases cashflows) (simp_all add: sp_xirr_equivalent_def)

end
